theory Spec2Isabelle
  imports Main "HOL-Library.Char_ord"
begin

section \<open>Strings of the host language\<close>

text \<open>
  The grammar builder of \<^verbatim>\<open>create-ttl-grammar.js\<close> works on JavaScript strings. They are
  modelled as lists of 8-bit characters. Three characters cannot be written inside a
  string literal here and get a name.
\<close>

abbreviation bs :: char where "bs \<equiv> CHR 0x5C"
abbreviation dq :: char where "dq \<equiv> CHR 0x22"
abbreviation colon :: char where "colon \<equiv> CHR 0x3A"

text \<open>
  \<^verbatim>\<open>String.prototype.lastIndexOf\<close> with a one-character needle: the index of the last
  occurrence, or \<open>-1\<close> when there is none.
\<close>

fun lastIndexOf :: "string \<Rightarrow> char \<Rightarrow> int" where
  "lastIndexOf [] c = - 1"
| "lastIndexOf (x # xs) c =
     (let r = lastIndexOf xs c
      in if 0 \<le> r then r + 1 else if x = c then 0 else - 1)"

text \<open>
  \<^verbatim>\<open>String.prototype.substring(start, end)\<close>: both indices are clamped to the range
  from 0 to the length, and swapped when the first exceeds the second. With one argument
  the end is the length.
\<close>

definition substring :: "string \<Rightarrow> int \<Rightarrow> int \<Rightarrow> string" where
  "substring s a b =
     (let n = int (length s);
          a' = max 0 (min a n);
          b' = max 0 (min b n);
          lo = min a' b';
          hi = max a' b'
      in take (nat (hi - lo)) (drop (nat lo) s))"

definition substringFrom :: "string \<Rightarrow> int \<Rightarrow> string" where
  "substringFrom s a = substring s a (int (length s))"

text \<open>
  \<^verbatim>\<open>String.prototype.replace\<close> with a global pattern that matches exactly one character
  of a class: every such character is replaced, the others are kept.
\<close>

definition replaceChars :: "(char \<Rightarrow> bool) \<Rightarrow> (char \<Rightarrow> string) \<Rightarrow> string \<Rightarrow> string" where
  "replaceChars P f s = concat (map (\<lambda>c. if P c then f c else [c]) s)"

text \<open>
  The global pattern \<^verbatim>\<open>/\\\\["]/g\<close> matches two backslashes followed by a double quote.
  Matches are found from left to right and do not overlap; each is replaced by \<open>r\<close>.
\<close>

fun replaceEscapedQuote :: "string \<Rightarrow> string \<Rightarrow> string" where
  "replaceEscapedQuote r (a # b # c # xs) =
     (if a = bs \<and> b = bs \<and> c = dq then r @ replaceEscapedQuote r xs
      else a # replaceEscapedQuote r (b # c # xs))"
| "replaceEscapedQuote r xs = xs"

text \<open>\<^verbatim>\<open>Array.prototype.toString\<close>, used when an array is interpolated into a template.\<close>

fun joinComma :: "string list \<Rightarrow> string" where
  "joinComma [] = []"
| "joinComma [x] = x"
| "joinComma (x # y # ys) = x @ '','' @ joinComma (y # ys)"

section \<open>Regular expressions\<close>

text \<open>
  The patterns the source tests its input against use character classes, sequence, choice,
  option and iteration only. \<open>regexTest r s\<close> models \<^verbatim>\<open>/^r$/.test(s)\<close>: without the
  multi-line flag the anchors are the two ends of the string, so the test asks whether the
  whole string is in the language of \<open>r\<close>. It is decided by taking the derivative of the
  expression by each character in turn.
\<close>

datatype regex =
    Never
  | Empty
  | Class "char \<Rightarrow> bool"
  | Seq regex regex
  | Alt regex regex
  | Star regex

abbreviation Opt :: "regex \<Rightarrow> regex" where
  "Opt r \<equiv> Alt r Empty"

fun matchesEmpty :: "regex \<Rightarrow> bool" where
  "matchesEmpty Never = False"
| "matchesEmpty Empty = True"
| "matchesEmpty (Class P) = False"
| "matchesEmpty (Seq r s) = (matchesEmpty r \<and> matchesEmpty s)"
| "matchesEmpty (Alt r s) = (matchesEmpty r \<or> matchesEmpty s)"
| "matchesEmpty (Star r) = True"

fun seq :: "regex \<Rightarrow> regex \<Rightarrow> regex" where
  "seq Never s = Never"
| "seq Empty s = s"
| "seq r s = Seq r s"

fun alt :: "regex \<Rightarrow> regex \<Rightarrow> regex" where
  "alt Never s = s"
| "alt r Never = r"
| "alt r s = Alt r s"

fun after :: "char \<Rightarrow> regex \<Rightarrow> regex" where
  "after c Never = Never"
| "after c Empty = Never"
| "after c (Class P) = (if P c then Empty else Never)"
| "after c (Seq r s) =
     (if matchesEmpty r then alt (seq (after c r) s) (after c s) else seq (after c r) s)"
| "after c (Alt r s) = alt (after c r) (after c s)"
| "after c (Star r) = seq (after c r) (Star r)"

fun regexTest :: "regex \<Rightarrow> string \<Rightarrow> bool" where
  "regexTest r [] = matchesEmpty r"
| "regexTest r (c # cs) = regexTest (after c r) cs"

text \<open>
  The language of an expression, to state what the test decides: a string passes the test
  exactly when it belongs to the language.
\<close>

inductive_set repeated :: "string set \<Rightarrow> string set" for A :: "string set" where
  none: "[] \<in> repeated A"
| more: "u \<in> A \<Longrightarrow> v \<in> repeated A \<Longrightarrow> u @ v \<in> repeated A"

fun language :: "regex \<Rightarrow> string set" where
  "language Never = {}"
| "language Empty = {[]}"
| "language (Class P) = {[c] | c. P c}"
| "language (Seq r s) = {u @ v | u v. u \<in> language r \<and> v \<in> language s}"
| "language (Alt r s) = language r \<union> language s"
| "language (Star r) = repeated (language r)"

text \<open>The character classes of the source's patterns.\<close>

definition isLetter :: "char \<Rightarrow> bool" where
  "isLetter c = ((CHR ''a'' \<le> c \<and> c \<le> CHR ''z'') \<or> (CHR ''A'' \<le> c \<and> c \<le> CHR ''Z''))"

definition isWordChar :: "char \<Rightarrow> bool" where
  "isWordChar c = (isLetter c \<or> (CHR ''0'' \<le> c \<and> c \<le> CHR ''9'') \<or> c = CHR ''_'')"

definition isNotLineEnd :: "char \<Rightarrow> bool" where
  "isNotLineEnd c = (c \<noteq> CHR 0x0A \<and> c \<noteq> CHR 0x0D)"

text \<open>
  \<^verbatim>\<open>([a-zA-Z]\w*\.?)*\<close>, the dotted identifier that occurs twice in the scope pattern.
\<close>

definition dottedNames :: regex where
  "dottedNames =
     Star (Seq (Class isLetter)
            (Seq (Star (Class isWordChar)) (Opt (Class (\<lambda>c. c = CHR ''.'')))))"

text \<open>\<^verbatim>\<open>/^([a-zA-Z]\w*\.?)*(\w#([a-zA-Z]\w*\.?)*)?\w$/\<close>\<close>

definition includeScopePattern :: regex where
  "includeScopePattern =
     Seq dottedNames
       (Seq (Opt (Seq (Class isWordChar) (Seq (Class (\<lambda>c. c = CHR ''#'')) dottedNames)))
            (Class isWordChar))"

text \<open>\<^verbatim>\<open>/^\".*\"$/\<close>; the dot of JavaScript matches every character but a line end.\<close>

definition quotedPattern :: regex where
  "quotedPattern =
     Seq (Class (\<lambda>c. c = dq)) (Seq (Star (Class isNotLineEnd)) (Class (\<lambda>c. c = dq)))"

text \<open>\<^verbatim>\<open>/[|{}()[\]^$+*?.]/\<close>, the characters that are special inside a pattern.\<close>

definition isRegExpSpecial :: "char \<Rightarrow> bool" where
  "isRegExpSpecial c = (c \<in> set ''|{}()[]^$+*?.'')"

section \<open>Compiling one rule\<close>

text \<open>
  \<^verbatim>\<open>createGrammarPatterns\<close> throws an \<^verbatim>\<open>Error\<close> at three places, told apart by
  their message. Each place is a constructor that carries the strings interpolated into
  its message.
\<close>

datatype error =
    InvalidPatternSpec string
  | MalformedRegex string string
  | InvalidLiteral string

fun message :: "error \<Rightarrow> string" where
  "message (InvalidPatternSpec ttlString) =
     ''Error in the Tagged Template Grammar String '' @ ttlString"
| "message (MalformedRegex matchString err) =
     ''You entered an badly formed RegExp in the Tagged Template Grammar settings.\<newline>''
       @ matchString @ ''\<newline>'' @ err"
| "message (InvalidLiteral matchString) =
     ''Bad literal string in the Tagged Template Grammar settings.\<newline>'' @ matchString"

text \<open>
  The text the function returns: the template of the source with its three holes, the
  content name, the match string and the include scope.
\<close>

definition patternText :: "string \<Rightarrow> string \<Rightarrow> string \<Rightarrow> string" where
  \<open>patternText contentName matchString includeScope =
     ''{\<newline>      "contentName": "'' @ contentName
     @ ''",\<newline>      "begin": "'' @ [bs, bs] @ ''s*+('' @ matchString
     @ '')'' @ [bs, bs] @ ''s*(`)",\<newline>      "beginCaptures": {\<newline>        "1": { "name": "entity.name.tag.js" },\<newline>        "2": { "name": "punctuation.definition.quasi.begin.js" }\<newline>      },\<newline>      "end": "''
     @ [bs, bs] @ ''s*(?<=[^'' @ [bs, bs, bs, bs] @ '']'' @ [bs, bs, bs, bs, bs, bs, bs, bs]
     @ ''|[^'' @ [bs, bs, bs, bs] @ '']|^'' @ [bs, bs, bs, bs, bs, bs, bs, bs]
     @ ''|^)((`))",\<newline>      "endCaptures": {\<newline>        "1": { "name": "punctuation.definition.quasi.end.js" }\<newline>      },\<newline>      "patterns": [\<newline>        { "include": "source.js.jsx#literal-quasi-embedded" },\<newline>        { "include": "''
     @ includeScope @ ''" }\<newline>      ]\<newline>    }''\<close>

text \<open>
  The two escaping passes. In a quoted match string every backslash is doubled, then
  every \<^verbatim>\<open>\\"\<close> becomes \<^verbatim>\<open>\\\"\<close>. In a literal match string every backslash becomes
  four, then every special character gets two backslashes in front of it.
\<close>

definition escapeQuoted :: "string \<Rightarrow> string" where
  "escapeQuoted matchString =
     replaceEscapedQuote [bs, bs, bs, dq]
       (replaceChars (\<lambda>c. c = bs) (\<lambda>c. [bs, bs]) matchString)"

definition escapeLiteral :: "string \<Rightarrow> string" where
  "escapeLiteral matchString =
     replaceChars isRegExpSpecial (\<lambda>c. [bs, bs, c])
       (replaceChars (\<lambda>c. c = bs) (\<lambda>c. [bs, bs, bs, bs]) matchString)"

text \<open>
  \<^verbatim>\<open>createGrammarPatterns(ttlString)\<close>. The check of a quoted expression by the host's
  Oniguruma constructor is the parameter \<open>onigurumaCheck\<close>: \<open>Some err\<close> when the constructor
  throws \<open>err\<close>, \<open>None\<close> when it accepts the expression or when no constructor is found.
\<close>

definition createGrammarPatterns :: "(string \<Rightarrow> string option) \<Rightarrow> string \<Rightarrow> error + string" where
  "createGrammarPatterns onigurumaCheck ttlString =
     (let lastColonIndex = lastIndexOf ttlString colon;
          matchString = substring ttlString 0 lastColonIndex;
          includeScope = substringFrom ttlString (lastColonIndex + 1);
          isValidIncludeScope = regexTest includeScopePattern includeScope;
          isQuotedMatchString = regexTest quotedPattern matchString
      in if length matchString < 1 \<or> \<not> isValidIncludeScope
         then Inl (InvalidPatternSpec ttlString)
         else if isQuotedMatchString
         then (let stripped = substring matchString 1 (int (length matchString) - 1)
               in case onigurumaCheck stripped of
                    Some err \<Rightarrow> Inl (MalformedRegex stripped err)
                  | None \<Rightarrow>
                      Inr (patternText (takeWhile (\<lambda>c. c \<noteq> CHR ''#'') includeScope)
                             (escapeQuoted stripped) includeScope))
         else if dq \<in> set matchString
         then Inl (InvalidLiteral matchString)
         else Inr (patternText (takeWhile (\<lambda>c. c \<noteq> CHR ''#'') includeScope)
                     (escapeLiteral matchString) includeScope))"

section \<open>Building the document\<close>

definition TTL_GRAMMAR_NAME :: string where
  "TTL_GRAMMAR_NAME = ''language-babel-extension''"

definition TTL_SCOPENAME :: string where
  "TTL_SCOPENAME = ''languagebabel.ttlextension''"

text \<open>
  \<^verbatim>\<open>Array.prototype.map\<close> over the configured rules, from left to right; the first rule
  that throws ends the traversal.
\<close>

fun mapPatterns :: "(string \<Rightarrow> string option) \<Rightarrow> string list \<Rightarrow> error + string list" where
  "mapPatterns onigurumaCheck [] = Inr []"
| "mapPatterns onigurumaCheck (ttlString # rest) =
     (case createGrammarPatterns onigurumaCheck ttlString of
        Inl e \<Rightarrow> Inl e
      | Inr p \<Rightarrow>
          (case mapPatterns onigurumaCheck rest of
             Inl e \<Rightarrow> Inl e
           | Inr ps \<Rightarrow> Inr (p # ps)))"

definition documentHead :: string where
  \<open>documentHead =
     ''{\<newline>  "name": "'' @ TTL_GRAMMAR_NAME
     @ ''",\<newline>  "comment": "Auto generated Tag Extensions for language-babel",\<newline>  "comment": "Please do not edit this file directly",\<newline>  "scopeName": "''
     @ TTL_SCOPENAME
     @ ''",\<newline>  "fileTypes": [],\<newline>  "patterns": [\<newline>    ''\<close>

definition documentTail :: string where
  "documentTail = ''\<newline>  ]\<newline>}''"

text \<open>
  \<^verbatim>\<open>createGrammarText()\<close>; the rules it reads with \<^verbatim>\<open>getTtlConfig()\<close> are the
  parameter \<open>ttlConfig\<close>.
\<close>

definition createGrammarText :: "(string \<Rightarrow> string option) \<Rightarrow> string list \<Rightarrow> error + string" where
  "createGrammarText onigurumaCheck ttlConfig =
     (case mapPatterns onigurumaCheck ttlConfig of
        Inl e \<Rightarrow> Inl e
      | Inr ps \<Rightarrow> Inr (documentHead @ joinComma ps @ documentTail))"

section \<open>Publishing the document\<close>

text \<open>
  The grammar directory is a flat directory of the host's file system. An absolute path is
  modelled as a directory and an entry name: \<^verbatim>\<open>path.resolve(dir, name)\<close> with a name
  that holds no separator, as the generated names do (a prefix, hexadecimal digits and a
  suffix). The world is the content of the file system and the record of what the code
  asked of the host: removals and writes of files, calls to the grammar registry and
  notifications, in the order they were made.
\<close>

type_synonym path = "string \<times> string"

definition pathText :: "path \<Rightarrow> string" where
  "pathText p = fst p @ ''/'' @ snd p"

datatype effect =
    RemoveGrammarForScopeName string
  | Unlink path
  | WriteFile path string
  | LoadGrammar path
  | AddInfo string
  | AddWarning string

record world =
  files :: "(path \<times> string) list"
  effects :: "effect list"

text \<open>
  What the host answers during one call of \<^verbatim>\<open>createGrammar\<close>: the error of
  \<^verbatim>\<open>fs.readdir\<close> and of \<^verbatim>\<open>fs.writeFile\<close>, if any, and whether
  \<^verbatim>\<open>atom.grammars.loadGrammar\<close> reports an error. The code calls \<^verbatim>\<open>fs.unlink\<close>
  with a path and no callback. A host may refuse such a call and throw, as Node.js does
  from version 10 on: \<open>unlinkRefused\<close> is the message of what it throws. A host that accepts
  the call removes the file or fails to, and the code never sees which: \<open>unlinkFails\<close>
  tells for each path whether the removal fails.
\<close>

record outcome =
  readdirError :: "string option"
  unlinkRefused :: "string option"
  unlinkFails :: "path \<Rightarrow> bool"
  writeFileError :: "string option"
  loadGrammarError :: bool

text \<open>
  A settled promise. \<open>Resolved None\<close> is \<^verbatim>\<open>resolve()\<close>, a promise resolved with no value.
\<close>

datatype 'a promise = Resolved 'a | Rejected string

record grammarRef =
  ttlFilename :: string
  ttlFilenameAbsolute :: path
  grammarText :: string

definition makeTtlGrammarFilename :: "string \<Rightarrow> string" where
  "makeTtlGrammarFilename hashString = ''ttl-'' @ hashString @ ''.json''"

definition makeTtlGrammarFilenameAbsoulute :: "string \<Rightarrow> string \<Rightarrow> path" where
  "makeTtlGrammarFilenameAbsoulute grammarPath name = (grammarPath, name)"

definition doesGrammarFileExist :: "string \<Rightarrow> string \<Rightarrow> world \<Rightarrow> bool" where
  "doesGrammarFileExist grammarPath name w =
     (makeTtlGrammarFilenameAbsoulute grammarPath name \<in> set (map fst (files w)))"

text \<open>The entries of a directory, as \<^verbatim>\<open>fs.readdir\<close> lists them.\<close>

definition readdir :: "string \<Rightarrow> world \<Rightarrow> string list" where
  "readdir dir w = map snd (filter (\<lambda>p. fst p = dir) (map fst (files w)))"

definition getGrammarFiles :: "string \<Rightarrow> outcome \<Rightarrow> world \<Rightarrow> string + string list" where
  "getGrammarFiles grammarPath out w =
     (case readdirError out of
        Some err \<Rightarrow> Inl err
      | None \<Rightarrow> Inr (readdir grammarPath w))"

text \<open>\<^verbatim>\<open>/^ttl-/.test(filename)\<close>\<close>

definition isTtlName :: "string \<Rightarrow> bool" where
  "isTtlName name = (take 4 name = ''ttl-'')"

definition getTtlGrammarFiles :: "string \<Rightarrow> outcome \<Rightarrow> world \<Rightarrow> string + string list" where
  "getTtlGrammarFiles grammarPath out w =
     (case getGrammarFiles grammarPath out w of
        Inl err \<Rightarrow> Inl err
      | Inr dirFiles \<Rightarrow> Inr (filter isTtlName dirFiles))"

text \<open>
  A call of \<^verbatim>\<open>fs.unlink(path)\<close> that the host accepts: the removal is requested, and
  the file is gone unless the removal fails. The removals concern other files than the one
  written next, so a removal that succeeds is taken to be done when it is requested.
\<close>

definition unlink :: "outcome \<Rightarrow> path \<Rightarrow> world \<Rightarrow> world" where
  "unlink out p w =
     w\<lparr>files := (if unlinkFails out p then files w else filter (\<lambda>e. fst e \<noteq> p) (files w)),
       effects := effects w @ [Unlink p]\<rparr>"

text \<open>
  The loop of \<^verbatim>\<open>removeTtlLanguageFiles\<close> over the generated files. On a host that
  refuses \<^verbatim>\<open>fs.unlink\<close> without a callback the first call throws, inside the promise
  chain: the loop ends there and the promise is rejected.
\<close>

fun unlinkEach :: "string \<Rightarrow> outcome \<Rightarrow> string list \<Rightarrow> world \<Rightarrow> (string + unit) \<times> world" where
  "unlinkEach grammarPath out [] w = (Inr (), w)"
| "unlinkEach grammarPath out (ttlGrammarFilename # rest) w =
     (case unlinkRefused out of
        Some err \<Rightarrow> (Inl err, w)
      | None \<Rightarrow>
          unlinkEach grammarPath out rest
            (unlink out (makeTtlGrammarFilenameAbsoulute grammarPath ttlGrammarFilename) w))"

definition removeTtlLanguageFiles :: "string \<Rightarrow> outcome \<Rightarrow> world \<Rightarrow> (string + unit) \<times> world" where
  "removeTtlLanguageFiles grammarPath out w =
     (case getTtlGrammarFiles grammarPath out w of
        Inl err \<Rightarrow> (Inl err, w)
      | Inr ttlGrammarFiles \<Rightarrow> unlinkEach grammarPath out ttlGrammarFiles w)"

text \<open>
  \<^verbatim>\<open>fs.writeFile\<close> is called in any case; it replaces the content of an existing file.
  A write that reports an error is taken to leave the directory as it was.
\<close>

definition createGrammarFile :: "outcome \<Rightarrow> path \<Rightarrow> string \<Rightarrow> world \<Rightarrow> (string + unit) \<times> world" where
  "createGrammarFile out filename text w =
     (let w' = w\<lparr>effects := effects w @ [WriteFile filename text]\<rparr>
      in case writeFileError out of
           Some err \<Rightarrow> (Inl err, w')
         | None \<Rightarrow>
             (Inr (),
              w'\<lparr>files := (filename, text) # filter (\<lambda>e. fst e \<noteq> filename) (files w')\<rparr>))"

definition addGrammars :: "outcome \<Rightarrow> path \<Rightarrow> world \<Rightarrow> (string + unit) \<times> world" where
  "addGrammars out filename w =
     (let w' = w\<lparr>effects := effects w @ [LoadGrammar filename]\<rparr>
      in if loadGrammarError out
         then (Inl (''Unable to add Grammar to registry\<newline>'' @ pathText filename), w')
         else (Inr (), w'))"

definition removeGrammars :: "world \<Rightarrow> world" where
  "removeGrammars w = w\<lparr>effects := effects w @ [RemoveGrammarForScopeName TTL_SCOPENAME]\<rparr>"

definition addInfo :: "string \<Rightarrow> world \<Rightarrow> world" where
  "addInfo detail w = w\<lparr>effects := effects w @ [AddInfo detail]\<rparr>"

definition addWarning :: "string \<Rightarrow> world \<Rightarrow> world" where
  "addWarning detail w = w\<lparr>effects := effects w @ [AddWarning detail]\<rparr>"

text \<open>
  \<^verbatim>\<open>createGrammar({ttlFilename, ttlFilenameAbsolute, grammarText})\<close>: the promise it
  returns, once settled, and the world it leaves.
\<close>

definition createGrammar :: "string \<Rightarrow> outcome \<Rightarrow> grammarRef \<Rightarrow> world \<Rightarrow> string option promise \<times> world" where
  "createGrammar grammarPath out ref w =
     (if doesGrammarFileExist grammarPath (ttlFilename ref) w
      then (Resolved None, w)
      else
        (case removeTtlLanguageFiles grammarPath out (removeGrammars w) of
           (Inl err, w1) \<Rightarrow> (Rejected err, addWarning err w1)
         | (Inr u, w1) \<Rightarrow>
             (case createGrammarFile out (ttlFilenameAbsolute ref) (grammarText ref) w1 of
                (Inl err, w2) \<Rightarrow> (Rejected err, addWarning err w2)
              | (Inr u, w2) \<Rightarrow>
                  (case addGrammars out (ttlFilenameAbsolute ref) w2 of
                     (Inl err, w3) \<Rightarrow> (Rejected err, addWarning err w3)
                   | (Inr u, w3) \<Rightarrow>
                       (Resolved (Some (ttlFilename ref)),
                        addInfo (''Grammar created at \<newline>''
                                   @ pathText (ttlFilenameAbsolute ref)) w3)))))"

text \<open>
  The argument the timer callback of \<^verbatim>\<open>observeTtlConfig\<close> builds from a document text,
  and the call it makes with it. The digest of \<^verbatim>\<open>generateTtlSHA256\<close>, computed by the
  host's \<^verbatim>\<open>crypto\<close> module, is the parameter \<open>sha\<close>.
\<close>

definition grammarRefOf :: "(string \<Rightarrow> string) \<Rightarrow> string \<Rightarrow> string \<Rightarrow> grammarRef" where
  "grammarRefOf sha grammarPath text =
     (let hash = sha text;
          name = makeTtlGrammarFilename hash
      in \<lparr>ttlFilename = name,
          ttlFilenameAbsolute = makeTtlGrammarFilenameAbsoulute grammarPath name,
          grammarText = text\<rparr>)"

definition publish :: "(string \<Rightarrow> string) \<Rightarrow> string \<Rightarrow> outcome \<Rightarrow> string \<Rightarrow> world \<Rightarrow> string option promise \<times> world" where
  "publish sha grammarPath out text w =
     createGrammar grammarPath out (grammarRefOf sha grammarPath text) w"

text \<open>
  The whole callback: build the text from the rules read at that moment, publish it, and
  turn an error thrown by the build into a warning. It is the action of the timer that
  the scheduler below sets.
\<close>

definition configChanged :: "(string \<Rightarrow> string) \<Rightarrow> string \<Rightarrow> (string \<Rightarrow> string option) \<Rightarrow> outcome \<Rightarrow> string list \<Rightarrow> world \<Rightarrow> world" where
  "configChanged sha grammarPath onigurumaCheck out rules w =
     (case createGrammarText onigurumaCheck rules of
        Inl err \<Rightarrow> addWarning (message err) w
      | Inr text \<Rightarrow> snd (publish sha grammarPath out text w))"

text \<open>The generated files of the grammar directory.\<close>

definition ttlFilesOf :: "string \<Rightarrow> world \<Rightarrow> string list" where
  "ttlFilesOf grammarPath w = filter isTtlName (readdir grammarPath w)"

section \<open>Debouncing the configuration changes\<close>

text \<open>
  The host's timers are a table of pending timers, each with a handle and the time it is
  due, and a clock in milliseconds. \<^verbatim>\<open>setTimeout\<close> returns a fresh handle, never zero;
  \<^verbatim>\<open>clearTimeout\<close> removes a pending timer and ignores any other handle. The object keeps
  the handle of its last timer in \<^verbatim>\<open>configChangedTimer\<close>, \<^verbatim>\<open>null\<close> at first. The
  field \<open>runs\<close> records each execution of the timer callback: when it ran and the rules
  it read. The field \<open>host\<close> is whatever the callback acts on.
\<close>

record 'w scheduler =
  clock :: nat
  timers :: "(nat \<times> nat) list"
  lastHandle :: nat
  configChangedTimer :: "nat option"
  taggedTemplateGrammar :: "string list"
  runs :: "(nat \<times> string list) list"
  host :: 'w

definition clearTimeout :: "nat \<Rightarrow> 'w scheduler \<Rightarrow> 'w scheduler" where
  "clearTimeout h s = s\<lparr>timers := filter (\<lambda>t. fst t \<noteq> h) (timers s)\<rparr>"

definition setTimeout :: "nat \<Rightarrow> 'w scheduler \<Rightarrow> nat \<times> 'w scheduler" where
  "setTimeout timeout s =
     (let h = Suc (lastHandle s)
      in (h, s\<lparr>timers := timers s @ [(h, clock s + timeout)], lastHandle := h\<rparr>))"

text \<open>
  \<^verbatim>\<open>observeTtlConfig(timeout)\<close>. The test \<^verbatim>\<open>if (this.configChangedTimer)\<close> holds for a
  handle that is neither \<^verbatim>\<open>null\<close> nor zero.
\<close>

definition observeTtlConfig :: "nat \<Rightarrow> 'w scheduler \<Rightarrow> 'w scheduler" where
  "observeTtlConfig timeout s =
     (let s1 = (case configChangedTimer s of
                  None \<Rightarrow> s
                | Some h \<Rightarrow> if h \<noteq> 0 then clearTimeout h s else s);
          (h', s2) = setTimeout timeout s1
      in s2\<lparr>configChangedTimer := Some h'\<rparr>)"

text \<open>
  A timer that fires runs the callback at the time it is due. The callback reads the
  rules then, with \<^verbatim>\<open>getTtlConfig()\<close>, and acts on the host by \<open>action\<close>.
\<close>

definition fire :: "(string list \<Rightarrow> 'w \<Rightarrow> 'w) \<Rightarrow> nat \<times> nat \<Rightarrow> 'w scheduler \<Rightarrow> 'w scheduler" where
  "fire action t s =
     s\<lparr>clock := snd t,
       timers := filter (\<lambda>u. fst u \<noteq> fst t) (timers s),
       runs := runs s @ [(snd t, taggedTemplateGrammar s)],
       host := action (taggedTemplateGrammar s) (host s)\<rparr>"

text \<open>
  Time passes: the timers due by then fire, the earliest first, and the clock moves on.
  The callback sets no timer, so the timers due are those pending at the start.
\<close>

definition elapse :: "(string list \<Rightarrow> 'w \<Rightarrow> 'w) \<Rightarrow> nat \<Rightarrow> 'w scheduler \<Rightarrow> 'w scheduler" where
  "elapse action d s =
     (let target = clock s + d;
          due = sort_key snd (filter (\<lambda>t. snd t \<le> target) (timers s))
      in (foldl (\<lambda>s' t. fire action t s') s due)\<lparr>clock := target\<rparr>)"

text \<open>
  What happens to the scheduler: the user changes the rules, the host calls
  \<^verbatim>\<open>observeTtlConfig\<close>, or time passes.
\<close>

datatype event = SetConfig "string list" | Observe nat | Elapse nat

fun step :: "(string list \<Rightarrow> 'w \<Rightarrow> 'w) \<Rightarrow> 'w scheduler \<Rightarrow> event \<Rightarrow> 'w scheduler" where
  "step action s (SetConfig rules) = s\<lparr>taggedTemplateGrammar := rules\<rparr>"
| "step action s (Observe timeout) = observeTtlConfig timeout s"
| "step action s (Elapse d) = elapse action d s"

definition run :: "(string list \<Rightarrow> 'w \<Rightarrow> 'w) \<Rightarrow> 'w scheduler \<Rightarrow> event list \<Rightarrow> 'w scheduler" where
  "run action s evs = foldl (step action) s evs"

text \<open>
  A burst of calls: before each call some time passes and the rules change, then the host
  calls \<^verbatim>\<open>observeTtlConfig\<close>.
\<close>

fun burst :: "nat \<Rightarrow> (nat \<times> string list) list \<Rightarrow> event list" where
  "burst timeout [] = []"
| "burst timeout ((gap, rules) # calls) =
     [Elapse gap, SetConfig rules, Observe timeout] @ burst timeout calls"

text \<open>
  After a call of \<^verbatim>\<open>observeTtlConfig\<close> exactly one timer is pending, the object holds
  its handle, and the timer is due one timeout after the call.
\<close>

definition armed :: "nat \<Rightarrow> 'w scheduler \<Rightarrow> bool" where
  "armed timeout s =
     (\<exists>h. h \<noteq> 0 \<and> timers s = [(h, clock s + timeout)] \<and> configChangedTimer s = Some h)"

section \<open>Notions of the specification\<close>

text \<open>
  The specification speaks of an unescaped double quote: a double quote that no backslash
  escapes, where a backslash escapes the character that follows it.
\<close>

fun hasUnescapedQuote :: "string \<Rightarrow> bool" where
  "hasUnescapedQuote [] = False"
| "hasUnescapedQuote [c] = (c = dq)"
| "hasUnescapedQuote (c # d # cs) =
     (if c = bs then hasUnescapedQuote cs else c = dq \<or> hasUnescapedQuote (d # cs))"

text \<open>
  The thirteen characters the specification lists as special in a pattern, and the two
  passes it asks for on a literal match expression: every backslash is quadrupled, then
  every special character is escaped, with two backslashes in the text of the document.
  On one character this makes four backslashes of a backslash, escapes a special
  character and keeps any other.
\<close>

definition specialCharacters :: "char list" where
  "specialCharacters =
     [CHR ''|'', CHR ''{'', CHR ''}'', CHR ''('', CHR '')'', CHR ''['', CHR '']'',
      CHR ''^'', CHR ''$'', CHR ''+'', CHR ''*'', CHR ''?'', CHR ''.'']"

definition backslashesQuadrupled :: "string \<Rightarrow> string" where
  "backslashesQuadrupled s = concat (map (\<lambda>c. if c = bs then [bs, bs, bs, bs] else [c]) s)"

definition specialCharactersEscaped :: "string \<Rightarrow> string" where
  "specialCharactersEscaped s =
     concat (map (\<lambda>c. if c \<in> set specialCharacters then [bs, bs, c] else [c]) s)"

definition literalCharEscaped :: "char \<Rightarrow> string" where
  "literalCharEscaped c =
     (if c = bs then [bs, bs, bs, bs]
      else if c \<in> set specialCharacters then [bs, bs, c] else [c])"

text \<open>
  The document is JSON, and the host reads the patterns back from it: in the text of a
  string two backslashes denote one. The escaping is meant to make the literal match
  itself, that is, to leave in the pattern that is read back a backslash before each
  backslash and before each special character of the literal, and nothing else.
\<close>

fun jsonBackslashesDecoded :: "string \<Rightarrow> string" where
  "jsonBackslashesDecoded (a # b # cs) =
     (if a = bs \<and> b = bs then bs # jsonBackslashesDecoded cs
      else a # jsonBackslashesDecoded (b # cs))"
| "jsonBackslashesDecoded cs = cs"

definition literalCharQuoted :: "char \<Rightarrow> string" where
  "literalCharQuoted c = (if c = bs \<or> c \<in> set specialCharacters then [bs, c] else [c])"

section \<open>Example data\<close>

text \<open>
  Two hosts: one where no Oniguruma constructor is found, so that every quoted expression
  passes, and one whose constructor rejects an unclosed group.
\<close>

definition noOniguruma :: "string \<Rightarrow> string option" where
  "noOniguruma expr = None"

definition sampleOniguruma :: "string \<Rightarrow> string option" where
  "sampleOniguruma expr =
     (if expr = ''(unclosed'' then Some ''Error: end pattern with unmatched parenthesis''
      else None)"

text \<open>The documents built from no rule and from the rule \<^verbatim>\<open>tag:source.example\<close>.\<close>

definition ruleFreeDocument :: string where
  "ruleFreeDocument = documentHead @ documentTail"

definition oneRuleDocument :: string where
  "oneRuleDocument =
     documentHead @ patternText ''source.example'' ''tag'' ''source.example'' @ documentTail"

text \<open>
  A digest function that gives these two documents their SHA-256 digest in hexadecimal
  digits, and is of no interest elsewhere.
\<close>

definition sha256Examples :: "string \<Rightarrow> string" where
  "sha256Examples t =
     (if t = ruleFreeDocument
      then ''26d12b471f2035277d061587e2033f31d73aaf261c3f4b1e48d5e0c0ad2087f8''
      else if t = oneRuleDocument
      then ''0b3d6610858695eed73dff11d0a960fa6c11a5e69dc6516b7e8d4e750f2cb3ea''
      else [])"

text \<open>
  Three hosts. On the first every call succeeds. The second accepts \<^verbatim>\<open>fs.unlink\<close>
  without a callback, as Node.js did before version 10, and fails to remove any file, as
  when the files are locked or protected; every other call succeeds. The third refuses
  \<^verbatim>\<open>fs.unlink\<close> without a callback. Then a grammar directory as the package ships it.
\<close>

definition allGoesWell :: outcome where
  "allGoesWell =
     \<lparr>readdirError = None, unlinkRefused = None, unlinkFails = (\<lambda>p. False),
       writeFileError = None, loadGrammarError = False\<rparr>"

definition removalFailsUnseen :: outcome where
  "removalFailsUnseen =
     \<lparr>readdirError = None, unlinkRefused = None, unlinkFails = (\<lambda>p. True),
       writeFileError = None, loadGrammarError = False\<rparr>"

definition removalRefused :: outcome where
  "removalRefused =
     \<lparr>readdirError = None, unlinkRefused = Some ''Callback must be a function'',
       unlinkFails = (\<lambda>p. False), writeFileError = None, loadGrammarError = False\<rparr>"

definition shippedGrammars :: world where
  "shippedGrammars =
     \<lparr>files = [((''/language-babel/grammars'', ''Babel Language.json''), ''{}'')],
       effects = []\<rparr>"

text \<open>A scheduler that has set no timer yet; its callback keeps the rules it is run with.\<close>

definition idle :: "string list list scheduler" where
  "idle = \<lparr>clock = 0, timers = [], lastHandle = 0, configChangedTimer = None,
            taggedTemplateGrammar = [], runs = [], host = []\<rparr>"

section \<open>The test of an expression decides its language\<close>

lemma matchesEmpty_language: "matchesEmpty r \<longleftrightarrow> [] \<in> language r"
  by (induction r) (auto intro: repeated.none)

lemma language_seq: "language (seq r s) = language (Seq r s)"
  by (cases r) auto

lemma language_alt: "language (alt r s) = language (Alt r s)"
  by (cases r; cases s) auto

lemma repeated_cons:
  "c # w \<in> repeated A \<longleftrightarrow> (\<exists>u v. w = u @ v \<and> c # u \<in> A \<and> v \<in> repeated A)"
proof
  assume "c # w \<in> repeated A"
  then show "\<exists>u v. w = u @ v \<and> c # u \<in> A \<and> v \<in> repeated A"
  proof (induction "c # w" arbitrary: w rule: repeated.induct)
    case (more u v)
    show ?case
    proof (cases u)
      case Nil
      with more show ?thesis by simp
    next
      case (Cons a u')
      with more.hyps(1,2,4) show ?thesis by auto
    qed
  qed
next
  assume "\<exists>u v. w = u @ v \<and> c # u \<in> A \<and> v \<in> repeated A"
  then obtain u v where "w = u @ v" "c # u \<in> A" "v \<in> repeated A" by blast
  then show "c # w \<in> repeated A"
    using repeated.more [of "c # u" A v] by simp
qed

lemma language_after: "language (after c r) = {w. c # w \<in> language r}"
proof (induction r)
  case (Seq r s)
  have "{w. c # w \<in> language (Seq r s)} =
      {u @ v | u v. c # u \<in> language r \<and> v \<in> language s}
      \<union> (if [] \<in> language r then {w. c # w \<in> language s} else {})"
    by (auto simp: Cons_eq_append_conv)
  with Seq show ?case
    by (auto simp: language_seq language_alt matchesEmpty_language)
next
  case (Star r)
  then show ?case
    by (auto simp: language_seq repeated_cons)
qed (auto simp: language_alt)

lemma regexTest_language: "regexTest r s \<longleftrightarrow> s \<in> language r"
  by (induction s arbitrary: r) (simp_all add: matchesEmpty_language language_after)

section \<open>Splitting a rule at its last colon\<close>

lemma lastIndexOf_absent: "c \<notin> set s \<Longrightarrow> lastIndexOf s c = - 1"
  by (induction s) (auto simp: Let_def)

lemma lastIndexOf_split: "c \<notin> set sc \<Longrightarrow> lastIndexOf (ms @ c # sc) c = int (length ms)"
  by (induction ms) (auto simp: Let_def lastIndexOf_absent)

lemma substring_prefix: "substring (ms @ c # sc) 0 (int (length ms)) = ms"
  by (simp add: substring_def Let_def min_def max_def)

lemma substring_suffix: "substringFrom (ms @ c # sc) (int (length ms) + 1) = sc"
  by (simp add: substringFrom_def substring_def Let_def min_def max_def nat_add_distrib)

lemma substring_empty: "substring s 0 (- 1) = []"
  by (simp add: substring_def Let_def min_def max_def)

text \<open>
  A rule whose last colon separates \<open>ms\<close> from \<open>sc\<close> is compiled by the checks of the
  source, in their order, on these two parts.
\<close>

lemma createGrammarPatterns_split:
  assumes "colon \<notin> set sc"
  shows "createGrammarPatterns chk (ms @ colon # sc) =
     (if ms = [] \<or> \<not> regexTest includeScopePattern sc
      then Inl (InvalidPatternSpec (ms @ colon # sc))
      else if regexTest quotedPattern ms
      then (case chk (substring ms 1 (int (length ms) - 1)) of
              Some err \<Rightarrow> Inl (MalformedRegex (substring ms 1 (int (length ms) - 1)) err)
            | None \<Rightarrow> Inr (patternText (takeWhile (\<lambda>c. c \<noteq> CHR ''#'') sc)
                             (escapeQuoted (substring ms 1 (int (length ms) - 1))) sc))
      else if dq \<in> set ms then Inl (InvalidLiteral ms)
      else Inr (patternText (takeWhile (\<lambda>c. c \<noteq> CHR ''#'') sc) (escapeLiteral ms) sc))"
  using assms
  by (simp add: createGrammarPatterns_def lastIndexOf_split substring_prefix substring_suffix
      Let_def split: option.split)

lemma compiled_fields:
  assumes "colon \<notin> set sc" and "createGrammarPatterns chk (ms @ colon # sc) = Inr t"
  shows "t = patternText (takeWhile (\<lambda>c. c \<noteq> CHR ''#'') sc)
           (if regexTest quotedPattern ms
            then escapeQuoted (substring ms 1 (int (length ms) - 1))
            else escapeLiteral ms) sc"
  using assms(2) unfolding createGrammarPatterns_split [OF assms(1)]
  by (auto split: if_splits option.splits)

text \<open>The template of the source, written out line by line.\<close>

lemma patternText_written:
  \<open>patternText cn m sc =
        ''{\<newline>''
        @ ''      "contentName": "'' @ cn @ ''",\<newline>''
        @ ''      "begin": "'' @ [bs, bs] @ ''s*+('' @ m @ '')'' @ [bs, bs] @ ''s*(`)",\<newline>''
        @ ''      "beginCaptures": {\<newline>''
        @ ''        "1": { "name": "entity.name.tag.js" },\<newline>''
        @ ''        "2": { "name": "punctuation.definition.quasi.begin.js" }\<newline>''
        @ ''      },\<newline>''
        @ ''      "end": "'' @ [bs, bs] @ ''s*(?<=[^'' @ [bs, bs, bs, bs] @ '']''
        @ [bs, bs, bs, bs, bs, bs, bs, bs] @ ''|[^'' @ [bs, bs, bs, bs] @ '']|^''
        @ [bs, bs, bs, bs, bs, bs, bs, bs] @ ''|^)((`))",\<newline>''
        @ ''      "endCaptures": {\<newline>''
        @ ''        "1": { "name": "punctuation.definition.quasi.end.js" }\<newline>''
        @ ''      },\<newline>''
        @ ''      "patterns": [\<newline>''
        @ ''        { "include": "source.js.jsx#literal-quasi-embedded" },\<newline>''
        @ ''        { "include": "'' @ sc @ ''" }\<newline>''
        @ ''      ]\<newline>''
        @ ''    }''\<close>
  by (simp add: patternText_def)

text \<open>
  The two passes of the source on a literal are the two passes of the specification, on the
  same thirteen characters, and act on each character by itself.
\<close>

lemma special_characters: "isRegExpSpecial c \<longleftrightarrow> c \<in> set specialCharacters"
  by (simp add: isRegExpSpecial_def specialCharacters_def)

lemma escapeLiteral_two_passes:
  "escapeLiteral ms = specialCharactersEscaped (backslashesQuadrupled ms)"
  by (simp add: escapeLiteral_def replaceChars_def specialCharactersEscaped_def
      backslashesQuadrupled_def special_characters)

lemma two_passes_charwise:
  "specialCharactersEscaped (backslashesQuadrupled ms) = concat (map literalCharEscaped ms)"
  by (induction ms)
    (auto simp: specialCharactersEscaped_def backslashesQuadrupled_def literalCharEscaped_def
      specialCharacters_def)

lemma jsonBackslashesDecoded_other:
  "c \<noteq> bs \<Longrightarrow> jsonBackslashesDecoded (c # cs) = c # jsonBackslashesDecoded cs"
  by (cases cs) simp_all

lemma escaped_char_reads_back:
  "jsonBackslashesDecoded (literalCharEscaped c @ cs) =
     literalCharQuoted c @ jsonBackslashesDecoded cs"
  by (simp add: literalCharEscaped_def literalCharQuoted_def jsonBackslashesDecoded_other)

lemma escaped_reads_back_quoted:
  "jsonBackslashesDecoded (concat (map literalCharEscaped ms)) = concat (map literalCharQuoted ms)"
  by (induction ms) (simp_all add: escaped_char_reads_back)

section \<open>Rules and what they compile to\<close>

lemma example_plain:
  "createGrammarPatterns chk ''tag:source.example'' =
     Inr (patternText ''source.example'' ''tag'' ''source.example'')"
  by code_simp


lemma example_special:
  "createGrammarPatterns chk ''a.b*c:source.example'' =
     Inr (patternText ''source.example'' (''a'' @ [bs, bs] @ ''.b'' @ [bs, bs] @ ''*c'')
            ''source.example'')"
  by code_simp

lemma example_scope_valid: "regexTest includeScopePattern ''source.example''"
  by code_simp

text \<open>
  C9. A rule string that holds no colon is rejected as an invalid pattern specification,
  whatever the host's check of quoted expressions: the search for the last colon gives
  \<open>-1\<close>, the match expression is the empty string, and the test of its length fails.
\<close>

theorem rule_without_colon_rejected:
  "colon \<notin> set rule \<Longrightarrow> createGrammarPatterns chk rule = Inl (InvalidPatternSpec rule)"
  by (simp add: createGrammarPatterns_def lastIndexOf_absent substring_empty Let_def)

theorem rule_without_colon_rejected_witness:
  "colon \<notin> set ''tagsource''
   \<and> createGrammarPatterns noOniguruma ''tagsource'' = Inl (InvalidPatternSpec ''tagsource'')"
  using rule_without_colon_rejected [of "''tagsource''" noOniguruma] by simp



text \<open>
  C5, as the code has it. Take a rule whose match expression is not empty, whose scope
  reference is valid and whose match expression is not of the quoted form. It is rejected
  as a bad literal exactly when the match expression holds a double quote, whether a
  backslash stands before that quote or not; the error carries the match expression.
\<close>

theorem literal_with_quote_rejected:
  assumes "colon \<notin> set sc" and "ms \<noteq> []" and "regexTest includeScopePattern sc"
    and "\<not> regexTest quotedPattern ms"
  shows "((\<exists>x. createGrammarPatterns chk (ms @ colon # sc) = Inl (InvalidLiteral x))
            \<longleftrightarrow> dq \<in> set ms)
       \<and> (dq \<in> set ms \<longrightarrow>
            createGrammarPatterns chk (ms @ colon # sc) = Inl (InvalidLiteral ms))"
  using assms by (simp add: createGrammarPatterns_split)

theorem literal_with_quote_rejected_witness:
  "colon \<notin> set ''source.example'' \<and> ''a'' @ [dq] @ ''b'' \<noteq> []
   \<and> regexTest includeScopePattern ''source.example''
   \<and> \<not> regexTest quotedPattern (''a'' @ [dq] @ ''b'')
   \<and> createGrammarPatterns noOniguruma ((''a'' @ [dq] @ ''b'') @ colon # ''source.example'')
       = Inl (InvalidLiteral (''a'' @ [dq] @ ''b''))"
proof -
  have a: "colon \<notin> set ''source.example''" by simp
  have b: "''a'' @ [dq] @ ''b'' \<noteq> []" by simp
  have c: "\<not> regexTest quotedPattern (''a'' @ [dq] @ ''b'')" by code_simp
  from literal_with_quote_rejected [OF a b example_scope_valid c, of noOniguruma]
  have "createGrammarPatterns noOniguruma ((''a'' @ [dq] @ ''b'') @ colon # ''source.example'')
      = Inl (InvalidLiteral (''a'' @ [dq] @ ''b''))"
    by simp
  with a b c example_scope_valid show ?thesis by blast
qed

text \<open>
  The claim C5 as the specification states it fails. In the match expression
  \<^verbatim>\<open>a\"b\<close> the only double quote is escaped by the backslash before it, the expression
  is not of the quoted form, and the rule is rejected as a bad literal all the same.
\<close>

theorem escaped_quote_rejected:
  "\<not> hasUnescapedQuote (''a'' @ [bs, dq] @ ''b'')
   \<and> \<not> regexTest quotedPattern (''a'' @ [bs, dq] @ ''b'')
   \<and> createGrammarPatterns noOniguruma (''a'' @ [bs, dq] @ ''b:source.example'')
       = Inl (InvalidLiteral (''a'' @ [bs, dq] @ ''b''))"
  by code_simp

text \<open>
  C6. A rule whose match expression is not of the quoted form and that compiles gives the
  pattern object written below, and in its begin pattern, between the parentheses, the
  match expression with every backslash quadrupled first and then two backslashes put
  before each of the characters \<^verbatim>\<open>| { } ( ) [ ] ^ $ + * ? .\<close> and no other. The second
  pass leaves the backslashes of the first alone, so character by character a backslash
  becomes four, a special character is escaped and any other is kept. Read back from the
  JSON text, where two backslashes denote one, this has one backslash before each
  backslash and each special character of the match expression, so that it matches the
  literal itself. The rule \<^verbatim>\<open>a.b*c:source.example\<close> gives the begin pattern
  \<^verbatim>\<open>\\s*+(a\\.b\\*c)\\s*(`)\<close>, with the dot and the star escaped.
\<close>

theorem literal_escaping:
  \<open>let written = (\<lambda>contentName begin include.
        ''{\<newline>''
        @ ''      "contentName": "'' @ contentName @ ''",\<newline>''
        @ ''      "begin": "'' @ [bs, bs] @ ''s*+('' @ begin @ '')'' @ [bs, bs] @ ''s*(`)",\<newline>''
        @ ''      "beginCaptures": {\<newline>''
        @ ''        "1": { "name": "entity.name.tag.js" },\<newline>''
        @ ''        "2": { "name": "punctuation.definition.quasi.begin.js" }\<newline>''
        @ ''      },\<newline>''
        @ ''      "end": "'' @ [bs, bs] @ ''s*(?<=[^'' @ [bs, bs, bs, bs] @ '']''
        @ [bs, bs, bs, bs, bs, bs, bs, bs] @ ''|[^'' @ [bs, bs, bs, bs] @ '']|^''
        @ [bs, bs, bs, bs, bs, bs, bs, bs] @ ''|^)((`))",\<newline>''
        @ ''      "endCaptures": {\<newline>''
        @ ''        "1": { "name": "punctuation.definition.quasi.end.js" }\<newline>''
        @ ''      },\<newline>''
        @ ''      "patterns": [\<newline>''
        @ ''        { "include": "source.js.jsx#literal-quasi-embedded" },\<newline>''
        @ ''        { "include": "'' @ include @ ''" }\<newline>''
        @ ''      ]\<newline>''
        @ ''    }'')
   in createGrammarPatterns chk ''a.b*c:source.example'' =
        Inr (written ''source.example'' (''a'' @ [bs, bs] @ ''.b'' @ [bs, bs] @ ''*c'')
               ''source.example'')
      \<and> (\<forall>ms sc t. colon \<notin> set sc \<longrightarrow> \<not> regexTest quotedPattern ms \<longrightarrow>
            createGrammarPatterns chk (ms @ colon # sc) = Inr t \<longrightarrow>
            t = written (takeWhile (\<lambda>c. c \<noteq> CHR ''#'') sc)
                  (specialCharactersEscaped (backslashesQuadrupled ms)) sc
            \<and> specialCharactersEscaped (backslashesQuadrupled ms)
                = concat (map literalCharEscaped ms)
            \<and> jsonBackslashesDecoded (concat (map literalCharEscaped ms))
                = concat (map literalCharQuoted ms))\<close>
proof -
  have "t = patternText (takeWhile (\<lambda>c. c \<noteq> CHR ''#'') sc)
            (specialCharactersEscaped (backslashesQuadrupled ms)) sc"
    if "colon \<notin> set sc" and "\<not> regexTest quotedPattern ms"
      and "createGrammarPatterns chk (ms @ colon # sc) = Inr t" for ms sc t
    using compiled_fields [OF that(1,3)] that(2) by (simp add: escapeLiteral_two_passes)
  then show ?thesis
    unfolding Let_def patternText_written [symmetric]
    using example_special two_passes_charwise escaped_reads_back_quoted by blast
qed

theorem literal_escaping_witness:
  "colon \<notin> set ''source.example'' \<and> \<not> regexTest quotedPattern (''a'' @ [bs] @ ''b.c'')
   \<and> createGrammarPatterns noOniguruma ((''a'' @ [bs] @ ''b.c'') @ colon # ''source.example'')
       = Inr (patternText ''source.example''
                (''a'' @ [bs, bs, bs, bs] @ ''b'' @ [bs, bs] @ ''.c'') ''source.example'')
   \<and> specialCharactersEscaped (backslashesQuadrupled (''a'' @ [bs] @ ''b.c''))
       = ''a'' @ [bs, bs, bs, bs] @ ''b'' @ [bs, bs] @ ''.c''
   \<and> concat (map literalCharQuoted (''a'' @ [bs] @ ''b.c''))
       = ''a'' @ [bs, bs] @ ''b'' @ [bs] @ ''.c''"
proof -
  have a: "colon \<notin> set ''source.example''" by simp
  have b: "\<not> regexTest quotedPattern (''a'' @ [bs] @ ''b.c'')" by code_simp
  have c: "createGrammarPatterns noOniguruma ((''a'' @ [bs] @ ''b.c'') @ colon # ''source.example'')
       = Inr (patternText ''source.example''
                (''a'' @ [bs, bs, bs, bs] @ ''b'' @ [bs, bs] @ ''.c'') ''source.example'')"
    by code_simp
  have d: "specialCharactersEscaped (backslashesQuadrupled (''a'' @ [bs] @ ''b.c''))
      = ''a'' @ [bs, bs, bs, bs] @ ''b'' @ [bs, bs] @ ''.c''"
    by code_simp
  have e: "concat (map literalCharQuoted (''a'' @ [bs] @ ''b.c''))
      = ''a'' @ [bs, bs] @ ''b'' @ [bs] @ ''.c''"
    by code_simp
  from literal_escaping [of noOniguruma, unfolded Let_def] a b c
  have f: "jsonBackslashesDecoded (concat (map literalCharEscaped (''a'' @ [bs] @ ''b.c'')))
        = concat (map literalCharQuoted (''a'' @ [bs] @ ''b.c''))"
    by blast
  from f a b c d e show ?thesis by blast
qed

section \<open>The document builder\<close>

lemma mapPatterns_first_error:
  assumes "\<forall>r \<in> set pre. \<not> isl (createGrammarPatterns chk r)"
    and "createGrammarPatterns chk bad = Inl e"
  shows "mapPatterns chk (pre @ bad # post) = Inl e"
  using assms by (induction pre) (auto split: sum.splits)

lemma mapPatterns_total:
  "\<forall>r \<in> set rules. \<not> isl (createGrammarPatterns chk r) \<Longrightarrow> \<exists>ps. mapPatterns chk rules = Inr ps"
  by (induction rules) (auto split: sum.splits)

text \<open>
  The host's check of a quoted expression decides whether a rule compiles, never what it
  compiles to.
\<close>

lemma compile_independent:
  assumes "createGrammarPatterns chk r = Inr p" and "createGrammarPatterns chk' r = Inr p'"
  shows "p = p'"
  using assms unfolding createGrammarPatterns_def Let_def
  by (auto split: if_splits option.splits)

lemma mapPatterns_independent:
  "mapPatterns chk rules = Inr ps \<Longrightarrow> mapPatterns chk' rules = Inr ps' \<Longrightarrow> ps = ps'"
  by (induction rules arbitrary: ps ps') (auto split: sum.splits dest: compile_independent)

lemma example_document:
  "createGrammarText chk [''tag:source.example''] = Inr oneRuleDocument"
  by (simp add: createGrammarText_def example_plain oneRuleDocument_def)

text \<open>
  C3. Take a list of rules that are all valid, that is, each compiles, on two hosts that
  may differ in their check of quoted expressions. The builder returns a text on both, and
  the same text: the document is a function of the list of rules alone.
\<close>

theorem build_deterministic:
  assumes "\<forall>r \<in> set rules. \<not> isl (createGrammarPatterns chk r)"
    and "\<forall>r \<in> set rules. \<not> isl (createGrammarPatterns chk' r)"
  shows "\<exists>t. createGrammarText chk rules = Inr t \<and> createGrammarText chk' rules = Inr t"
proof -
  from assms obtain ps ps' where "mapPatterns chk rules = Inr ps"
    and "mapPatterns chk' rules = Inr ps'"
    using mapPatterns_total by blast
  moreover from this have "ps = ps'" by (rule mapPatterns_independent)
  ultimately show ?thesis by (simp add: createGrammarText_def)
qed

theorem build_deterministic_witness:
  "\<not> isl (createGrammarPatterns noOniguruma ''tag:source.example'')
   \<and> \<not> isl (createGrammarPatterns sampleOniguruma ''tag:source.example'')
   \<and> createGrammarText noOniguruma [''tag:source.example''] = Inr oneRuleDocument
   \<and> createGrammarText sampleOniguruma [''tag:source.example''] = Inr oneRuleDocument"
proof -
  have a: "\<forall>r \<in> set [''tag:source.example'']. \<not> isl (createGrammarPatterns noOniguruma r)"
    by (simp add: example_plain)
  have b: "\<forall>r \<in> set [''tag:source.example'']. \<not> isl (createGrammarPatterns sampleOniguruma r)"
    by (simp add: example_plain)
  from build_deterministic [OF a b] obtain t
    where "createGrammarText noOniguruma [''tag:source.example''] = Inr t"
      and "createGrammarText sampleOniguruma [''tag:source.example''] = Inr t"
    by blast
  moreover have "createGrammarText noOniguruma [''tag:source.example''] = Inr oneRuleDocument"
    by (rule example_document)
  ultimately show ?thesis by (simp add: example_plain)
qed

text \<open>
  C7. Take a list of rules of which at least one does not compile. The builder returns no
  text at all: it fails, and with the error of the first rule of the list that does not
  compile, every rule before that one being valid.
\<close>

theorem build_fails_fast:
  assumes "\<exists>r \<in> set rules. isl (createGrammarPatterns chk r)"
  shows "\<exists>pre bad post e. rules = pre @ bad # post
           \<and> (\<forall>r \<in> set pre. \<not> isl (createGrammarPatterns chk r))
           \<and> createGrammarPatterns chk bad = Inl e
           \<and> createGrammarText chk rules = Inl e"
proof -
  from assms obtain pre bad post where split: "rules = pre @ bad # post"
    and valid: "\<forall>r \<in> set pre. \<not> isl (createGrammarPatterns chk r)"
    and bad: "isl (createGrammarPatterns chk bad)"
    using split_list_first_prop [of rules "\<lambda>r. isl (createGrammarPatterns chk r)"] by blast
  from bad obtain e where e: "createGrammarPatterns chk bad = Inl e"
    by (cases "createGrammarPatterns chk bad") auto
  from valid e have "mapPatterns chk (pre @ bad # post) = Inl e"
    by (rule mapPatterns_first_error)
  then have "createGrammarText chk rules = Inl e"
    by (simp add: createGrammarText_def split)
  with split valid e show ?thesis by blast
qed

theorem build_fails_fast_witness:
  "isl (createGrammarPatterns noOniguruma ''nocolon'')
   \<and> createGrammarText noOniguruma [''tag:source.example'', ''nocolon'', ''bad scope:1nvalid..'']
       = Inl (InvalidPatternSpec ''nocolon'')"
proof -
  have bad: "createGrammarPatterns noOniguruma ''nocolon'' = Inl (InvalidPatternSpec ''nocolon'')"
    by code_simp
  then have "\<exists>r \<in> set [''tag:source.example'', ''nocolon'', ''bad scope:1nvalid..''].
      isl (createGrammarPatterns noOniguruma r)"
    by simp
  from build_fails_fast [OF this] obtain e
    where e: "createGrammarText noOniguruma
        [''tag:source.example'', ''nocolon'', ''bad scope:1nvalid..''] = Inl e"
    by blast
  have "createGrammarText noOniguruma
      [''tag:source.example'', ''nocolon'', ''bad scope:1nvalid..''] = Inl (InvalidPatternSpec ''nocolon'')"
    by (simp add: createGrammarText_def example_plain bad)
  with e bad show ?thesis by simp
qed

text \<open>
  C10. Every text the builder returns opens with the same members of the top-level
  object, and among them the key \<^verbatim>\<open>comment\<close> comes twice, first with the value
  \<^verbatim>\<open>Auto generated Tag Extensions for language-babel\<close> and then with the value
  \<^verbatim>\<open>Please do not edit this file directly\<close>: the keys of the document are not unique.
\<close>

theorem document_repeats_comment_key:
  \<open>createGrammarText chk rules = Inr t \<Longrightarrow>
     \<exists>rest. t = ''{\<newline>  "name": "language-babel-extension",\<newline>  "comment": "Auto generated Tag Extensions for language-babel",\<newline>  "comment": "Please do not edit this file directly",\<newline>'' @ rest\<close>
  by (auto simp: createGrammarText_def documentHead_def TTL_GRAMMAR_NAME_def split: sum.splits)

theorem document_repeats_comment_key_witness:
  \<open>createGrammarText noOniguruma [] = Inr ruleFreeDocument
   \<and> take 159 ruleFreeDocument = ''{\<newline>  "name": "language-babel-extension",\<newline>  "comment": "Auto generated Tag Extensions for language-babel",\<newline>  "comment": "Please do not edit this file directly",\<newline>''\<close>
proof -
  have built: "createGrammarText noOniguruma [] = Inr ruleFreeDocument"
    by (simp add: createGrammarText_def ruleFreeDocument_def)
  from document_repeats_comment_key [OF built] obtain rest
    where eq: \<open>ruleFreeDocument = ''{\<newline>  "name": "language-babel-extension",\<newline>  "comment": "Auto generated Tag Extensions for language-babel",\<newline>  "comment": "Please do not edit this file directly",\<newline>'' @ rest\<close>
    by blast
  have \<open>take 159 ruleFreeDocument = ''{\<newline>  "name": "language-babel-extension",\<newline>  "comment": "Auto generated Tag Extensions for language-babel",\<newline>  "comment": "Please do not edit this file directly",\<newline>''\<close>
    unfolding eq by simp
  with built show ?thesis by simp
qed

section \<open>The publisher and the grammar directory\<close>

lemma listing_without:
  "map snd (filter (\<lambda>p. fst p = gp) (map fst (filter (\<lambda>e. fst e \<notin> (\<lambda>n. (gp, n)) ` S) fs))) =
     filter (\<lambda>n. n \<notin> S) (map snd (filter (\<lambda>p. fst p = gp) (map fst fs)))"
  by (induction fs) auto

lemma listing_without_one:
  "map snd (filter (\<lambda>p. fst p = gp) (map fst (filter (\<lambda>e. fst e \<noteq> (gp, name)) fs))) =
     filter (\<lambda>n. n \<noteq> name) (map snd (filter (\<lambda>p. fst p = gp) (map fst fs)))"
  by (induction fs) auto

lemma generated_name: "isTtlName (makeTtlGrammarFilename h)"
  by (simp add: isTtlName_def makeTtlGrammarFilename_def)

lemma ttlFilesOf_files: "files w1 = files w \<Longrightarrow> ttlFilesOf gp w1 = ttlFilesOf gp w"
  by (simp add: ttlFilesOf_def readdir_def)

lemma readdir_files: "files w1 = files w \<Longrightarrow> readdir gp w1 = readdir gp w"
  by (simp add: readdir_def)

lemma exists_listed: "doesGrammarFileExist gp n w \<longleftrightarrow> n \<in> set (readdir gp w)"
  by (auto simp: doesGrammarFileExist_def readdir_def makeTtlGrammarFilenameAbsoulute_def
      image_iff)

text \<open>The steps of a call, one by one: what each leaves in the directory.\<close>

lemma unlinkEach_removed:
  assumes "unlinkRefused out = None" and "\<forall>p. \<not> unlinkFails out p"
  shows "\<exists>w'. unlinkEach gp out names w = (Inr (), w')
           \<and> files w' = filter (\<lambda>e. fst e \<notin> (\<lambda>n. (gp, n)) ` set names) (files w)"
proof (induction names arbitrary: w)
  case Nil
  then show ?case by simp
next
  case (Cons n names)
  let ?w = "unlink out (makeTtlGrammarFilenameAbsoulute gp n) w"
  from Cons.IH [of ?w] obtain w' where w': "unlinkEach gp out names ?w = (Inr (), w')"
    "files w' = filter (\<lambda>e. fst e \<notin> (\<lambda>n. (gp, n)) ` set names) (files ?w)"
    by blast
  have "files ?w = filter (\<lambda>e. fst e \<noteq> (gp, n)) (files w)"
    using assms(2) by (simp add: unlink_def makeTtlGrammarFilenameAbsoulute_def)
  then have "files w' = filter (\<lambda>e. fst e \<notin> (\<lambda>n. (gp, n)) ` set (n # names)) (files w)"
    using w'(2) by (auto intro!: filter_cong)
  with w'(1) assms(1) show ?case by simp
qed

lemma removeTtl_done:
  assumes "unlinkRefused out = None" and "\<forall>p. \<not> unlinkFails out p"
    and "removeTtlLanguageFiles gp out w = (Inr u, w1)"
  shows "ttlFilesOf gp w1 = []"
proof -
  from assms(3) have listed: "readdirError out = None"
    by (auto simp: removeTtlLanguageFiles_def getTtlGrammarFiles_def getGrammarFiles_def
        split: option.splits)
  from unlinkEach_removed [OF assms(1,2), of gp "filter isTtlName (readdir gp w)" w]
  obtain w' where w': "unlinkEach gp out (filter isTtlName (readdir gp w)) w = (Inr (), w')"
    "files w' = filter (\<lambda>e. fst e \<notin> (\<lambda>n. (gp, n)) ` set (filter isTtlName (readdir gp w)))
       (files w)"
    by blast
  with assms(3) listed have "w1 = w'"
    by (simp add: removeTtlLanguageFiles_def getTtlGrammarFiles_def getGrammarFiles_def)
  moreover have "ttlFilesOf gp w' = []"
    unfolding ttlFilesOf_def readdir_def w'(2) listing_without
    by (simp add: readdir_def)
  ultimately show ?thesis by simp
qed

lemma write_done:
  assumes "createGrammarFile out (gp, n) t w = (Inr u, w1)"
  shows "readdir gp w1 = n # filter (\<lambda>m. m \<noteq> n) (readdir gp w)"
proof -
  from assms have "files w1 = ((gp, n), t) # filter (\<lambda>e. fst e \<noteq> (gp, n)) (files w)"
    by (auto simp: createGrammarFile_def Let_def split: option.splits)
  then show ?thesis
    by (simp add: readdir_def listing_without_one)
qed

lemma addGrammars_files: "addGrammars out p w = (r, w1) \<Longrightarrow> files w1 = files w"
  by (auto simp: addGrammars_def Let_def split: if_splits)

lemma publish_unfold:
  "publish sha gp out t w =
     (if doesGrammarFileExist gp (makeTtlGrammarFilename (sha t)) w
      then (Resolved None, w)
      else
        (case removeTtlLanguageFiles gp out (removeGrammars w) of
           (Inl err, w1) \<Rightarrow> (Rejected err, addWarning err w1)
         | (Inr u, w1) \<Rightarrow>
             (case createGrammarFile out (gp, makeTtlGrammarFilename (sha t)) t w1 of
                (Inl err, w2) \<Rightarrow> (Rejected err, addWarning err w2)
              | (Inr u, w2) \<Rightarrow>
                  (case addGrammars out (gp, makeTtlGrammarFilename (sha t)) w2 of
                     (Inl err, w3) \<Rightarrow> (Rejected err, addWarning err w3)
                   | (Inr u, w3) \<Rightarrow>
                       (Resolved (Some (makeTtlGrammarFilename (sha t))),
                        addInfo (''Grammar created at \<newline>''
                                   @ pathText (gp, makeTtlGrammarFilename (sha t))) w3)))))"
  by (simp add: publish_def createGrammar_def grammarRefOf_def Let_def
      makeTtlGrammarFilenameAbsoulute_def split: prod.split sum.split)

text \<open>
  The three ways a call can end: the file was there and nothing happens; the file was
  created, is in the directory, and is the only generated file there if the host has
  removed every file it was asked to remove; or the call was rejected.
\<close>

lemma publish_cases:
  assumes "publish sha gp out t w = (r, w')"
  defines "name \<equiv> makeTtlGrammarFilename (sha t)"
  shows "(doesGrammarFileExist gp name w \<and> r = Resolved None \<and> w' = w)
       \<or> (\<not> doesGrammarFileExist gp name w \<and> r = Resolved (Some name)
            \<and> doesGrammarFileExist gp name w'
            \<and> (unlinkRefused out = None \<and> (\<forall>p. \<not> unlinkFails out p)
                 \<longrightarrow> ttlFilesOf gp w' = [name]))
       \<or> (\<not> doesGrammarFileExist gp name w \<and> (\<exists>e. r = Rejected e))"
proof (cases "doesGrammarFileExist gp name w")
  case True
  with assms show ?thesis
    by (simp add: publish_unfold)
next
  case absent: False
  obtain r1 w1 where rm: "removeTtlLanguageFiles gp out (removeGrammars w) = (r1, w1)"
    by (cases "removeTtlLanguageFiles gp out (removeGrammars w)")
  show ?thesis
  proof (cases r1)
    case (Inl e)
    have "publish sha gp out t w = (Rejected e, addWarning e w1)"
      using absent rm Inl by (simp add: publish_unfold name_def)
    with assms(1) absent show ?thesis by auto
  next
    case (Inr u)
    obtain r2 w2 where wr: "createGrammarFile out (gp, name) t w1 = (r2, w2)"
      by (cases "createGrammarFile out (gp, name) t w1")
    show ?thesis
    proof (cases r2)
      case (Inl e)
      have "publish sha gp out t w = (Rejected e, addWarning e w2)"
        using absent rm \<open>r1 = Inr u\<close> wr Inl by (simp add: publish_unfold name_def)
      with assms(1) absent show ?thesis by auto
    next
      case written: (Inr u2)
      with wr have ls: "readdir gp w2 = name # filter (\<lambda>m. m \<noteq> name) (readdir gp w1)"
        by (simp add: write_done)
      obtain r3 w3 where ld: "addGrammars out (gp, name) w2 = (r3, w3)"
        by (cases "addGrammars out (gp, name) w2")
      then have same: "files w3 = files w2" by (rule addGrammars_files)
      have there: "doesGrammarFileExist gp name w3"
        using ls readdir_files [OF same] by (simp add: exists_listed)
      have one: "ttlFilesOf gp w3 = [name]"
        if "unlinkRefused out = None" and "\<forall>p. \<not> unlinkFails out p"
      proof -
        from rm \<open>r1 = Inr u\<close> have "removeTtlLanguageFiles gp out (removeGrammars w) = (Inr u, w1)"
          by simp
        from removeTtl_done [OF that this]
        have "ttlFilesOf gp w1 = []" .
        then have "filter isTtlName (filter (\<lambda>m. m \<noteq> name) (readdir gp w1)) = []"
          by (auto simp: ttlFilesOf_def filter_empty_conv)
        with ls have "ttlFilesOf gp w2 = [name]"
          by (simp add: ttlFilesOf_def name_def generated_name)
        with ttlFilesOf_files [OF same] show ?thesis by simp
      qed
      show ?thesis
      proof (cases r3)
        case (Inl e)
        have "publish sha gp out t w = (Rejected e, addWarning e w3)"
          using absent rm \<open>r1 = Inr u\<close> wr written ld Inl by (simp add: publish_unfold name_def)
        with assms(1) absent show ?thesis by auto
      next
        case (Inr u3)
        have "publish sha gp out t w = (Resolved (Some name),
            addInfo (''Grammar created at \<newline>'' @ pathText (gp, name)) w3)"
          using absent rm \<open>r1 = Inr u\<close> wr written ld Inr by (simp add: publish_unfold name_def)
        with assms(1) absent one there show ?thesis
          by (auto simp: addInfo_def ttlFilesOf_def readdir_def doesGrammarFileExist_def)
      qed
    qed
  qed
qed

text \<open>
  Where the host removes every file it is asked to remove, a call that creates the file
  leaves it as the only generated file of the directory.
\<close>

lemma created_alone:
  assumes "unlinkRefused out = None" and "\<forall>p. \<not> unlinkFails out p"
    and "publish sha gp out t w = (Resolved (Some name), w')"
  shows "ttlFilesOf gp w' = [makeTtlGrammarFilename (sha t)]"
  using publish_cases [OF assms(3)] assms(1,2) by auto

text \<open>The two example documents, their digests, and calls on the shipped directory.\<close>

lemma documents_differ: "oneRuleDocument \<noteq> ruleFreeDocument"
  by (simp add: oneRuleDocument_def ruleFreeDocument_def patternText_def)

lemma digest_ruleFree:
  "sha256Examples ruleFreeDocument =
     ''26d12b471f2035277d061587e2033f31d73aaf261c3f4b1e48d5e0c0ad2087f8''"
  by (simp add: sha256Examples_def)

lemma digest_oneRule:
  "sha256Examples oneRuleDocument =
     ''0b3d6610858695eed73dff11d0a960fa6c11a5e69dc6516b7e8d4e750f2cb3ea''"
  by (simp add: sha256Examples_def documents_differ)

lemmas evalPublish = publish_def createGrammar_def grammarRefOf_def doesGrammarFileExist_def
  removeTtlLanguageFiles_def getTtlGrammarFiles_def getGrammarFiles_def readdir_def
  isTtlName_def unlink_def createGrammarFile_def addGrammars_def removeGrammars_def
  addInfo_def addWarning_def makeTtlGrammarFilename_def makeTtlGrammarFilenameAbsoulute_def
  pathText_def Let_def allGoesWell_def removalFailsUnseen_def removalRefused_def
  shippedGrammars_def ttlFilesOf_def

lemma first_call:
  "fst (publish sha256Examples ''/language-babel/grammars'' allGoesWell ruleFreeDocument shippedGrammars)
     = Resolved (Some ''ttl-26d12b471f2035277d061587e2033f31d73aaf261c3f4b1e48d5e0c0ad2087f8.json'')"
  by (simp add: evalPublish digest_ruleFree)

lemma first_call_effects:
  "effects (snd (publish sha256Examples ''/language-babel/grammars'' allGoesWell ruleFreeDocument shippedGrammars))
     = [RemoveGrammarForScopeName ''languagebabel.ttlextension'',
        WriteFile (''/language-babel/grammars'', ''ttl-26d12b471f2035277d061587e2033f31d73aaf261c3f4b1e48d5e0c0ad2087f8.json'') ruleFreeDocument,
        LoadGrammar (''/language-babel/grammars'', ''ttl-26d12b471f2035277d061587e2033f31d73aaf261c3f4b1e48d5e0c0ad2087f8.json''),
        AddInfo (''Grammar created at \<newline>/language-babel/grammars/ttl-26d12b471f2035277d061587e2033f31d73aaf261c3f4b1e48d5e0c0ad2087f8.json'')]"
  by (simp add: evalPublish digest_ruleFree TTL_SCOPENAME_def)

lemma same_call_again:
  "fst (publish sha256Examples ''/language-babel/grammars'' allGoesWell ruleFreeDocument
          (snd (publish sha256Examples ''/language-babel/grammars'' allGoesWell ruleFreeDocument shippedGrammars)))
     = Resolved None"
  by (simp add: evalPublish digest_ruleFree)

text \<open>
  On a host that refuses \<^verbatim>\<open>fs.unlink\<close> without a callback, the call that finds a
  generated file to remove is rejected, and the file stays.
\<close>

lemma refused_removal_rejects:
  "fst (publish sha256Examples ''/language-babel/grammars'' removalRefused oneRuleDocument
          (snd (publish sha256Examples ''/language-babel/grammars'' allGoesWell ruleFreeDocument shippedGrammars)))
     = Rejected ''Callback must be a function''
   \<and> ttlFilesOf ''/language-babel/grammars''
        (snd (publish sha256Examples ''/language-babel/grammars'' removalRefused oneRuleDocument
           (snd (publish sha256Examples ''/language-babel/grammars'' allGoesWell ruleFreeDocument shippedGrammars))))
     = [''ttl-26d12b471f2035277d061587e2033f31d73aaf261c3f4b1e48d5e0c0ad2087f8.json'']"
  by (simp add: evalPublish digest_ruleFree digest_oneRule)

text \<open>
  C1, as the code has it. When a call of the publisher with a text has created the file
  and returned its name, the name is \<^verbatim>\<open>ttl-\<close>, the digest of the text and
  \<^verbatim>\<open>.json\<close>, and a second call with the same text, whatever the host would answer,
  leaves the world as it is: no file is written or removed, the registry is not called,
  nothing is notified. The promise of the second call is resolved with no value, not with
  the name of the file.
\<close>

theorem republish_is_noop:
  assumes "publish sha gp first t w = (Resolved (Some name), w1)"
  shows "name = makeTtlGrammarFilename (sha t)
       \<and> publish sha gp again t w1 = (Resolved None, w1)"
proof -
  from publish_cases [OF assms]
  have "name = makeTtlGrammarFilename (sha t)"
    and "doesGrammarFileExist gp (makeTtlGrammarFilename (sha t)) w1"
    by auto
  then show ?thesis
    by (simp add: publish_unfold)
qed

theorem republish_is_noop_witness:
  "fst (publish sha256Examples ''/language-babel/grammars'' allGoesWell ruleFreeDocument shippedGrammars)
     = Resolved (Some ''ttl-26d12b471f2035277d061587e2033f31d73aaf261c3f4b1e48d5e0c0ad2087f8.json'')
   \<and> publish sha256Examples ''/language-babel/grammars'' allGoesWell ruleFreeDocument
          (snd (publish sha256Examples ''/language-babel/grammars'' allGoesWell ruleFreeDocument shippedGrammars))
     = (Resolved None,
        snd (publish sha256Examples ''/language-babel/grammars'' allGoesWell ruleFreeDocument shippedGrammars))"
proof -
  have created: "publish sha256Examples ''/language-babel/grammars'' allGoesWell ruleFreeDocument shippedGrammars
    = (Resolved (Some ''ttl-26d12b471f2035277d061587e2033f31d73aaf261c3f4b1e48d5e0c0ad2087f8.json''),
       snd (publish sha256Examples ''/language-babel/grammars'' allGoesWell ruleFreeDocument shippedGrammars))"
    using first_call by (simp add: prod_eq_iff)
  from republish_is_noop [OF created, where again = allGoesWell] first_call
  show ?thesis by simp
qed

text \<open>
  The claim C1 as the specification states it fails in its last part. On the shipped
  directory the first call with the document of no rule returns the name of the file it
  created; the second call with the same document returns no name.
\<close>

theorem republish_returns_no_filename:
  "fst (publish sha256Examples ''/language-babel/grammars'' allGoesWell ruleFreeDocument shippedGrammars)
     = Resolved (Some ''ttl-26d12b471f2035277d061587e2033f31d73aaf261c3f4b1e48d5e0c0ad2087f8.json'')
   \<and> fst (publish sha256Examples ''/language-babel/grammars'' allGoesWell ruleFreeDocument
          (snd (publish sha256Examples ''/language-babel/grammars'' allGoesWell ruleFreeDocument shippedGrammars)))
     = Resolved None"
  using first_call same_call_again by simp

text \<open>
  C2 does not hold of the code. The publisher asks the host to remove the generated files
  and does not wait for the answer or look at it, where its other calls of the file
  system reject the promise on an error. On a host that accepts the request and fails to
  remove the file, the call with the document of no rule succeeds on the shipped
  directory, then the call with the document of one rule succeeds as well, and the
  directory holds two generated files: the new one, named after the second document, and
  the stale one, named after the first.
\<close>

theorem stale_file_survives:
  "fst (publish sha256Examples ''/language-babel/grammars'' allGoesWell ruleFreeDocument shippedGrammars)
     = Resolved (Some ''ttl-26d12b471f2035277d061587e2033f31d73aaf261c3f4b1e48d5e0c0ad2087f8.json'')
   \<and> fst (publish sha256Examples ''/language-babel/grammars'' removalFailsUnseen oneRuleDocument
          (snd (publish sha256Examples ''/language-babel/grammars'' allGoesWell ruleFreeDocument shippedGrammars)))
     = Resolved (Some ''ttl-0b3d6610858695eed73dff11d0a960fa6c11a5e69dc6516b7e8d4e750f2cb3ea.json'')
   \<and> ttlFilesOf ''/language-babel/grammars''
        (snd (publish sha256Examples ''/language-babel/grammars'' removalFailsUnseen oneRuleDocument
           (snd (publish sha256Examples ''/language-babel/grammars'' allGoesWell ruleFreeDocument shippedGrammars))))
     = [''ttl-0b3d6610858695eed73dff11d0a960fa6c11a5e69dc6516b7e8d4e750f2cb3ea.json'',
        ''ttl-26d12b471f2035277d061587e2033f31d73aaf261c3f4b1e48d5e0c0ad2087f8.json'']"
  by (simp add: evalPublish digest_ruleFree digest_oneRule)

section \<open>The scheduler\<close>

lemma elapse_idle: "timers s = [] \<Longrightarrow> elapse action d s = s\<lparr>clock := clock s + d\<rparr>"
  by (simp add: elapse_def)

lemma elapse_early:
  assumes "timers s = [(h, due)]" and "clock s + d < due"
  shows "elapse action d s = s\<lparr>clock := clock s + d\<rparr>"
  using assms by (simp add: elapse_def)

lemma elapse_due:
  assumes "timers s = [(h, due)]" and "due \<le> clock s + d"
  shows "elapse action d s =
     s\<lparr>clock := clock s + d, timers := [],
       runs := runs s @ [(due, taggedTemplateGrammar s)],
       host := action (taggedTemplateGrammar s) (host s)\<rparr>"
  using assms by (simp add: elapse_def fire_def)

lemma observe_idle:
  assumes "timers s = []"
  shows "armed timeout (observeTtlConfig timeout s)"
    and "clock (observeTtlConfig timeout s) = clock s"
    and "runs (observeTtlConfig timeout s) = runs s"
    and "host (observeTtlConfig timeout s) = host s"
    and "taggedTemplateGrammar (observeTtlConfig timeout s) = taggedTemplateGrammar s"
  using assms
  by (auto simp: observeTtlConfig_def setTimeout_def clearTimeout_def armed_def Let_def
      split: option.splits)

lemma observe_pending:
  assumes "timers s = [(h, due)]" and "configChangedTimer s = Some h" and "h \<noteq> 0"
  shows "armed timeout (observeTtlConfig timeout s)"
    and "clock (observeTtlConfig timeout s) = clock s"
    and "runs (observeTtlConfig timeout s) = runs s"
    and "host (observeTtlConfig timeout s) = host s"
    and "taggedTemplateGrammar (observeTtlConfig timeout s) = taggedTemplateGrammar s"
  using assms
  by (auto simp: observeTtlConfig_def setTimeout_def clearTimeout_def armed_def Let_def)

lemma run_append: "run action s (xs @ ys) = run action (run action s xs) ys"
  by (simp add: run_def)

lemma run_three:
  "run action s [a, b, c] = step action (step action (step action s a) b) c"
  by (simp add: run_def)

text \<open>
  A call that comes before the pending timer is due cancels it and sets a new one; the
  callback has not run.
\<close>

lemma call_when_armed:
  fixes action :: "string list \<Rightarrow> 'w \<Rightarrow> 'w" and rules :: "string list"
  assumes "armed timeout s" and "gap < timeout"
  defines "s' \<equiv> run action s [Elapse gap, SetConfig rules, Observe timeout]"
  shows "armed timeout s'" and "clock s' = clock s + gap" and "runs s' = runs s"
    and "host s' = host s" and "taggedTemplateGrammar s' = rules"
proof -
  from assms(1) obtain h where h: "h \<noteq> 0" "timers s = [(h, clock s + timeout)]"
      "configChangedTimer s = Some h"
    by (auto simp: armed_def)
  have e: "elapse action gap s = s\<lparr>clock := clock s + gap\<rparr>"
    using h(2) assms(2) by (intro elapse_early) auto
  let ?m = "s\<lparr>clock := clock s + gap, taggedTemplateGrammar := rules\<rparr>"
  have s': "s' = observeTtlConfig timeout ?m"
    by (simp add: s'_def run_def e)
  have m: "timers ?m = [(h, clock s + timeout)]" "configChangedTimer ?m = Some h"
    using h by simp_all
  show "armed timeout s'" "clock s' = clock s + gap" "runs s' = runs s"
    "host s' = host s" "taggedTemplateGrammar s' = rules"
    unfolding s' using observe_pending [OF m h(1), of timeout] by simp_all
qed

lemma call_when_idle:
  fixes action :: "string list \<Rightarrow> 'w \<Rightarrow> 'w" and rules :: "string list"
    and gap timeout :: nat
  assumes "timers s = []"
  defines "s' \<equiv> run action s [Elapse gap, SetConfig rules, Observe timeout]"
  shows "armed timeout s'" and "clock s' = clock s + gap" and "runs s' = runs s"
    and "host s' = host s" and "taggedTemplateGrammar s' = rules"
proof -
  let ?m = "s\<lparr>clock := clock s + gap, taggedTemplateGrammar := rules\<rparr>"
  have s': "s' = observeTtlConfig timeout ?m"
    by (simp add: s'_def run_def elapse_idle [OF assms(1)])
  have m: "timers ?m = []" using assms(1) by simp
  show "armed timeout s'" "clock s' = clock s + gap" "runs s' = runs s"
    "host s' = host s" "taggedTemplateGrammar s' = rules"
    unfolding s' using observe_idle [OF m, of timeout] by simp_all
qed

lemma burst_when_armed:
  fixes action :: "string list \<Rightarrow> 'w \<Rightarrow> 'w"
  assumes "armed timeout s" and "\<forall>c \<in> set calls. fst c < timeout"
  defines "s' \<equiv> run action s (burst timeout calls)"
  shows "armed timeout s' \<and> clock s' = clock s + sum_list (map fst calls)
       \<and> runs s' = runs s \<and> host s' = host s
       \<and> taggedTemplateGrammar s'
           = (if calls = [] then taggedTemplateGrammar s else snd (last calls))"
  using assms(1,2) unfolding s'_def
proof (induction calls arbitrary: s)
  case Nil
  then show ?case by (simp add: run_def)
next
  case (Cons c calls)
  obtain gap rules where c: "c = (gap, rules)" by (cases c)
  let ?m = "run action s [Elapse gap, SetConfig rules, Observe timeout]"
  from Cons.prems c have gap: "gap < timeout" by simp
  note m = call_when_armed [OF Cons.prems(1) gap, of action rules]
  have rest: "\<forall>c \<in> set calls. fst c < timeout" using Cons.prems(2) by simp
  have split: "run action s (burst timeout (c # calls)) = run action ?m (burst timeout calls)"
    unfolding c burst.simps run_append ..
  show ?case
    unfolding split using Cons.IH [OF m(1) rest] m(2-5) c
    by simp
qed

text \<open>
  C8. The scheduler has no timer pending. The host calls \<^verbatim>\<open>observeTtlConfig\<close> once or
  more with the same timeout, each call after the first less than the timeout after the
  one before, and the rules change before each call. After the last call less than the
  timeout passes, the rules change once more with no call, and time passes until the
  timeout after the last call is over. Then the callback has run exactly once, at the
  last call's time plus the timeout, with the rules as they were at that moment, those of
  the change that came after the last call; no timer is left pending.
\<close>

theorem debounce_collapses_burst:
  fixes action :: "string list \<Rightarrow> 'w \<Rightarrow> 'w" and s :: "'w scheduler"
    and firstGap gap d timeout :: nat and firstRules final :: "string list"
    and calls :: "(nat \<times> string list) list"
  assumes "timers s = []"
    and "\<forall>c \<in> set calls. fst c < timeout"
    and "gap < timeout"
    and "timeout \<le> gap + d"
  defines "lastCall \<equiv> clock s + firstGap + sum_list (map fst calls)"
  defines "s' \<equiv> run action s
     (burst timeout ((firstGap, firstRules) # calls) @ [Elapse gap, SetConfig final, Elapse d])"
  shows "runs s' = runs s @ [(lastCall + timeout, final)]
       \<and> host s' = action final (host s)
       \<and> timers s' = []
       \<and> clock s' = lastCall + gap + d"
proof -
  define a where "a = run action s [Elapse firstGap, SetConfig firstRules, Observe timeout]"
  define b where "b = run action a (burst timeout calls)"
  note a = call_when_idle [OF assms(1), where timeout = timeout and action = action
      and gap = firstGap and rules = firstRules, folded a_def]
  from burst_when_armed [OF a(1) assms(2), where action = action, folded b_def]
  have b: "armed timeout b" "clock b = lastCall" "runs b = runs s" "host b = host s"
    using a(2-4) by (simp_all add: lastCall_def)
  from b(1) obtain h where h: "timers b = [(h, lastCall + timeout)]"
    by (auto simp: armed_def b(2))
  have early: "elapse action gap b = b\<lparr>clock := lastCall + gap\<rparr>"
    using elapse_early [OF h, where d = gap and action = action] assms(3) b(2) by simp
  define c where "c = b\<lparr>clock := lastCall + gap, taggedTemplateGrammar := final\<rparr>"
  have c: "timers c = [(h, lastCall + timeout)]" "clock c = lastCall + gap"
    "taggedTemplateGrammar c = final" "runs c = runs s" "host c = host s"
    using h b(3,4) by (simp_all add: c_def)
  have due: "lastCall + timeout \<le> clock c + d" using assms(4) c(2) by simp
  have "s' = run action b [Elapse gap, SetConfig final, Elapse d]"
    unfolding s'_def burst.simps run_append a_def b_def ..
  then have s': "s' = elapse action d c"
    by (simp add: run_three early c_def)
  show ?thesis
    unfolding s' elapse_due [OF c(1) due] using c(2-5) by simp
qed

theorem debounce_collapses_burst_witness:
  "timers idle = []
   \<and> runs (run (#) idle
     (burst 10000 [(0, [''a:source.one'']), (2000, [''a:source.two'']),
                   (2000, [''a:source.three'']), (2000, [''a:source.four'']),
                   (2000, [''a:source.five''])]
      @ [Elapse 9999, SetConfig [''a:source.six''], Elapse 1]))
     = [(18000, [''a:source.six''])]
   \<and> host (run (#) idle
     (burst 10000 [(0, [''a:source.one'']), (2000, [''a:source.two'']),
                   (2000, [''a:source.three'']), (2000, [''a:source.four'']),
                   (2000, [''a:source.five''])]
      @ [Elapse 9999, SetConfig [''a:source.six''], Elapse 1]))
     = [[''a:source.six'']]"
  using debounce_collapses_burst [where s = idle and action = "(#)" and timeout = 10000
      and firstGap = 0 and firstRules = "[''a:source.one'']"
      and calls = "[(2000, [''a:source.two'']), (2000, [''a:source.three'']),
        (2000, [''a:source.four'']), (2000, [''a:source.five''])]"
      and gap = 9999 and final = "[''a:source.six'']" and d = 1]
  by (simp add: idle_def)

end
